theory Spec2Isabelle
  imports Main
begin

section \<open>The text widget of notebad: \<^verbatim>\<open>src/views/textbox.py\<close>\<close>

text \<open>
  The class \<^verbatim>\<open>Textbox\<close> extends tkinter's \<^verbatim>\<open>Text\<close>. The parts of it that carry
  logic are the snapshot stack behind undo and redo, the flag \<^verbatim>\<open>changed_since_saved\<close>
  set on a key press, and the proxy that stands between Tcl and the widget and
  generates the virtual event \<^verbatim>\<open><<Change>>\<close>. Everything else builds and packs widgets.

  Python exceptions are values of \<open>error\<close>. A method that mutates the object and may
  raise returns the exception it raised, if any, together with the object as the
  exception leaves it.
\<close>

subsection \<open>Exceptions\<close>

datatype error =
    AttributeError string    \<comment> \<open>the attribute that could not be resolved\<close>
  | IndexError
  | UnboundLocalError string \<comment> \<open>the local variable read before assignment\<close>
  | TclError string          \<comment> \<open>raised by \<^verbatim>\<open>tk.call\<close>, with its message\<close>

type_synonym 's outcome = "error option \<times> 's"

definition and_then :: "'s outcome \<Rightarrow> ('s \<Rightarrow> 's outcome) \<Rightarrow> 's outcome" where
  "and_then r f = (case r of (None, s) \<Rightarrow> f s | (Some e, s) \<Rightarrow> (Some e, s))"

subsection \<open>\<^verbatim>\<open>collections.deque\<close> with a maximal length\<close>

text \<open>
  \<^verbatim>\<open>deque(maxlen = n)\<close>: \<^verbatim>\<open>append\<close> adds on the right and, when the deque has grown
  beyond \<open>n\<close>, discards one item on the left. Indexing accepts a negative index,
  counted from the right, and raises \<^verbatim>\<open>IndexError\<close> out of range.
\<close>

record 'a deque =
  maxlen :: nat
  items :: "'a list"

definition deque_new :: "nat \<Rightarrow> 'a deque" where
  "deque_new n = \<lparr>maxlen = n, items = []\<rparr>"

definition deque_append :: "'a deque \<Rightarrow> 'a \<Rightarrow> 'a deque" where
  "deque_append d x =
     (let ys = items d @ [x]
      in d\<lparr>items := (if maxlen d < length ys then tl ys else ys)\<rparr>)"

definition deque_len :: "'a deque \<Rightarrow> int" where
  "deque_len d = int (length (items d))"

definition deque_getitem :: "'a deque \<Rightarrow> int \<Rightarrow> error + 'a" where
  "deque_getitem d i =
     (let n = deque_len d; j = (if i < 0 then i + n else i)
      in if j < 0 \<or> n \<le> j then Inl IndexError else Inr (items d ! nat j))"

subsection \<open>The widget\<close>

text \<open>
  \<open>document\<close> is what the user has typed. Tk keeps one newline after it that cannot be
  deleted, so the text from index \<^verbatim>\<open>1.0\<close> to \<^verbatim>\<open>end\<close> is \<open>document\<close> followed by that
  newline. \<open>tab_calls\<close> logs the calls \<^verbatim>\<open>self.tabs.set_properties(tk_name, text=...)\<close>
  made on the enclosing notebook, oldest first.
\<close>

record textbox =
  document :: string
  file_name :: string
  tk_name :: string
  changed_since_saved :: bool
  stack :: "string deque"
  stackcursor :: int
  tab_calls :: "(string \<times> string) list"

text \<open>
  \<^verbatim>\<open>__init__\<close>, lines 28 to 37. The module \<^verbatim>\<open>conf\<close> is not part of the source at hand:
  its values \<^verbatim>\<open>cf.max_undo\<close> and \<^verbatim>\<open>cf.new_file_name\<close> are parameters.
\<close>

definition Textbox_init :: "nat \<Rightarrow> string \<Rightarrow> textbox" where
  "Textbox_init max_undo new_file_name =
     \<lparr>document = [],
      file_name = new_file_name,
      tk_name = [],
      changed_since_saved = False,
      stack = deque_new max_undo,
      stackcursor = 0,
      tab_calls = []\<rparr>"

definition get_1_0_end :: "textbox \<Rightarrow> string" where
  \<comment> \<open>\<^verbatim>\<open>self.get(1.0, 'end')\<close>, as in \<^verbatim>\<open>is_blank\<close>\<close>
  "get_1_0_end tb = document tb @ [CHR 0x0A]"

definition get_1_0_end_1c :: "textbox \<Rightarrow> string" where
  \<comment> \<open>\<^verbatim>\<open>self.get("1.0", "end - 1c")\<close>: up to one character before \<^verbatim>\<open>end\<close>\<close>
  "get_1_0_end_1c tb = butlast (get_1_0_end tb)"

definition is_blank :: "textbox \<Rightarrow> bool" where
  "is_blank tb = (get_1_0_end tb = [CHR 0x0A])"

definition clear_all :: "textbox \<Rightarrow> textbox outcome" where
  \<comment> \<open>\<^verbatim>\<open>self.delete("1.0", "end")\<close>: the final newline stays\<close>
  "clear_all tb = (None, tb\<lparr>document := []\<rparr>)"

definition insert_0_0 :: "string \<Rightarrow> textbox \<Rightarrow> textbox outcome" where
  \<comment> \<open>\<^verbatim>\<open>self.insert("0.0", s)\<close>: Tk reads a line number below 1 as the first line\<close>
  "insert_0_0 s tb = (None, tb\<lparr>document := s @ document tb\<rparr>)"

text \<open>
  \<^verbatim>\<open>self.clear\<close>: the class defines \<^verbatim>\<open>clear_all\<close> and no \<^verbatim>\<open>clear\<close>, and neither
  tkinter's \<^verbatim>\<open>Text\<close> nor any of its base classes has an attribute of that name
  (they have \<^verbatim>\<open>clipboard_clear\<close>, \<^verbatim>\<open>option_clear\<close> and \<^verbatim>\<open>selection_clear\<close>). The
  lookup raises before anything is called.
\<close>

definition clear :: "textbox \<Rightarrow> textbox outcome" where
  "clear tb = (Some (AttributeError ''clear''), tb)"

subsection \<open>Undo and redo\<close>

definition stackify :: "textbox \<Rightarrow> textbox" where
  "stackify tb =
     (let tb1 = tb\<lparr>stack := deque_append (stack tb) (get_1_0_end_1c tb)\<rparr>
      in if stackcursor tb1 < 9 then tb1\<lparr>stackcursor := stackcursor tb1 + 1\<rparr> else tb1)"

text \<open>
  \<^verbatim>\<open>undo\<close> and \<^verbatim>\<open>redo\<close>, line by line. The method behind \<^verbatim>\<open>self.clear\<close> is an
  argument, so that the bodies can also be read with the class's own \<^verbatim>\<open>clear_all\<close>.
\<close>

definition undo_with :: "(textbox \<Rightarrow> textbox outcome) \<Rightarrow> textbox \<Rightarrow> textbox outcome" where
  "undo_with clr tb =
     (if stackcursor tb \<noteq> 0 then
        and_then (clr tb) (\<lambda>tb1.
          let tb2 = (if stackcursor tb1 > 0 then tb1\<lparr>stackcursor := stackcursor tb1 - 1\<rparr> else tb1)
          in case deque_getitem (stack tb2) (stackcursor tb2) of
               Inl e \<Rightarrow> (Some e, tb2)
             | Inr s \<Rightarrow> insert_0_0 s tb2)
      else (None, tb))"

definition redo_with :: "(textbox \<Rightarrow> textbox outcome) \<Rightarrow> textbox \<Rightarrow> textbox outcome" where
  "redo_with clr tb =
     (if deque_len (stack tb) > stackcursor tb + 1 then
        and_then (clr tb) (\<lambda>tb1.
          let tb2 = (if stackcursor tb1 < 9 then tb1\<lparr>stackcursor := stackcursor tb1 + 1\<rparr> else tb1)
          in case deque_getitem (stack tb2) (stackcursor tb2) of
               Inl e \<Rightarrow> (Some e, tb2)
             | Inr s \<Rightarrow> insert_0_0 s tb2)
      else (None, tb))"

definition undo :: "textbox \<Rightarrow> textbox outcome" where
  "undo = undo_with clear"

definition redo :: "textbox \<Rightarrow> textbox outcome" where
  "redo = redo_with clear"

subsection \<open>Sequences of calls\<close>

text \<open>
  The calls a session makes on one widget. \<open>Edit\<close> stands for whatever changes the
  document between two of the widget's own methods (the user typing, a file being
  loaded). An exception raised inside a Tk callback is reported and the event loop goes
  on, so a sequence continues after a call that raised, from the object as that call
  left it; \<open>run\<close> returns what each call raised, in order.
\<close>

datatype call = Stackify | Undo | Redo | Edit string

fun perform :: "call \<Rightarrow> textbox \<Rightarrow> textbox outcome" where
  "perform Stackify tb = (None, stackify tb)"
| "perform Undo tb = undo tb"
| "perform Redo tb = redo tb"
| "perform (Edit s) tb = (None, tb\<lparr>document := s\<rparr>)"

fun run :: "call list \<Rightarrow> textbox \<Rightarrow> error option list \<times> textbox" where
  "run [] tb = ([], tb)"
| "run (c # cs) tb =
     (case perform c tb of (r, tb1) \<Rightarrow>
        (case run cs tb1 of (rs, tb2) \<Rightarrow> (r # rs, tb2)))"

definition final :: "call list \<Rightarrow> textbox \<Rightarrow> textbox" where
  "final cs tb = snd (run cs tb)"

definition raised :: "call list \<Rightarrow> textbox \<Rightarrow> error option list" where
  "raised cs tb = fst (run cs tb)"

text \<open>Typing each of the texts in turn and taking a snapshot after each.\<close>

definition snapshots_of :: "string list \<Rightarrow> call list" where
  "snapshots_of ts = concat (map (\<lambda>t. [Edit t, Stackify]) ts)"

subsection \<open>The key handler\<close>

text \<open>
  A Tk key event carries, among others, the modifier state, the key's symbol and the
  character the key produces (empty for a key that produces none). The handler is bound
  to every \<^verbatim>\<open><Key>\<close> event and reads the modifier state only; by its docstring, state
  16 is the state with no modifier key pressed. The call to \<^verbatim>\<open>self.after\<close> schedules a
  redraw of the footer and the syntax highlighter belongs to another module; neither
  touches the fields above.
\<close>

record key_event =
  state :: int
  keysym :: string
  char :: string

definition check_on_key :: "key_event \<Rightarrow> textbox \<Rightarrow> textbox" where
  "check_on_key event tb =
     (let tb1 =
        (if \<not> changed_since_saved tb \<and> state event = 16 then
           tb\<lparr>changed_since_saved := True,
              tab_calls := tab_calls tb @ [(tk_name tb, file_name tb @ '' *'')]\<rparr>
         else tb)
      in stackify tb1)"

fun press_keys :: "key_event list \<Rightarrow> textbox \<Rightarrow> textbox" where
  "press_keys [] tb = tb"
| "press_keys (e # es) tb = press_keys es (check_on_key e tb)"

text \<open>
  The two kinds of event the specification speaks of, which the handler does not tell
  apart: an edit that produces a character, and a pure cursor move that changes no
  text.
\<close>

definition character_producing :: "key_event \<Rightarrow> bool" where
  "character_producing e = (char e \<noteq> [])"

definition navigation_only :: "key_event \<Rightarrow> bool" where
  "navigation_only e =
     (char e = []
      \<and> keysym e \<in> set [''Left'', ''Right'', ''Up'', ''Down'', ''Home'', ''End'', ''Prior'', ''Next''])"

subsection \<open>The proxy in front of the widget command\<close>

text \<open>
  \<^verbatim>\<open>_proxy_for_line_numbers(*args)\<close> receives every command Tcl sends to the widget.
  \<^verbatim>\<open>self.tk.call\<close> runs in the Tcl interpreter and is an argument here, as is the
  switch \<^verbatim>\<open>cf.dev_mode\<close>. A run of the proxy is what it printed, the virtual events it
  generated and what it returned or raised.
\<close>

datatype printed = Printed_error error | Printed_cmd "string list"

record proxy_run =
  printed_lines :: "printed list"
  generated :: "string list"
  returned :: "error + string"

definition change_condition :: "string list \<Rightarrow> error + bool" where
  \<comment> \<open>the condition of lines 294 to 300; \<^verbatim>\<open>args[0]\<close> raises on the empty tuple\<close>
  "change_condition args =
     (case args of
        [] \<Rightarrow> Inl IndexError
      | a0 # _ \<Rightarrow>
          Inr (a0 \<in> set [''insert'', ''replace'', ''delete'']
               \<or> take 3 args = [''mark'', ''set'', ''insert'']
               \<or> take 2 args = [''xview'', ''moveto'']
               \<or> take 2 args = [''xview'', ''scroll'']
               \<or> take 2 args = [''yview'', ''moveto'']
               \<or> take 2 args = [''yview'', ''scroll'']))"

definition notify_and_return :: "printed list \<Rightarrow> string option \<Rightarrow> string list \<Rightarrow> proxy_run" where
  \<comment> \<open>lines 294 to 304; \<open>result\<close> is \<open>None\<close> while the local variable is unassigned\<close>
  "notify_and_return out result args =
     (case change_condition args of
        Inl e \<Rightarrow> \<lparr>printed_lines = out, generated = [], returned = Inl e\<rparr>
      | Inr fire \<Rightarrow>
          \<lparr>printed_lines = out,
           generated = (if fire then [''<<Change>>''] else []),
           returned = (case result of
                         None \<Rightarrow> Inl (UnboundLocalError ''result'')
                       | Some r \<Rightarrow> Inr r)\<rparr>)"

definition proxy_for_line_numbers ::
  "bool \<Rightarrow> string \<Rightarrow> (string list \<Rightarrow> error + string) \<Rightarrow> string list \<Rightarrow> proxy_run" where
  "proxy_for_line_numbers dev_mode orig tk_call args =
     (let cmd = orig # args
      in if dev_mode then
           (case tk_call cmd of
              Inr r \<Rightarrow> notify_and_return [] (Some r) args
            | Inl e \<Rightarrow> notify_and_return [Printed_error e, Printed_cmd cmd] None args)
         else
           (case tk_call cmd of
              Inr r \<Rightarrow> notify_and_return [] (Some r) args
            | Inl e \<Rightarrow> \<lparr>printed_lines = [], generated = [], returned = Inl e\<rparr>))"

text \<open>
  The classifier as the specification words it: a change event for the operations
  insert, replace and delete, for \<^verbatim>\<open>mark set insert\<close> (the cursor moved) and for
  \<^verbatim>\<open>moveto\<close> and \<^verbatim>\<open>scroll\<close> on either view; nothing otherwise.
\<close>

datatype ChangeEvent = Inserted | Replaced | Deleted | CursorMoved | Scrolled

definition classify :: "string \<Rightarrow> string list \<Rightarrow> ChangeEvent option" where
  "classify raw_op rest =
     (if raw_op = ''insert'' then Some Inserted
      else if raw_op = ''replace'' then Some Replaced
      else if raw_op = ''delete'' then Some Deleted
      else if raw_op = ''mark'' \<and> take 2 rest = [''set'', ''insert''] then Some CursorMoved
      else if raw_op = ''xview'' \<and> take 1 rest = [''moveto''] then Some Scrolled
      else if raw_op = ''xview'' \<and> take 1 rest = [''scroll''] then Some Scrolled
      else if raw_op = ''yview'' \<and> take 1 rest = [''moveto''] then Some Scrolled
      else if raw_op = ''yview'' \<and> take 1 rest = [''scroll''] then Some Scrolled
      else None)"

subsection \<open>The cursor invariant\<close>

text \<open>
  The cursor lies between 0 and 9 and within the stored snapshots, in a deque that holds
  at least nine.
\<close>

definition cursor_in_stack :: "textbox \<Rightarrow> bool" where
  "cursor_in_stack tb =
     (0 \<le> stackcursor tb \<and> stackcursor tb \<le> 9
      \<and> stackcursor tb \<le> deque_len (stack tb)
      \<and> length (items (stack tb)) \<le> maxlen (stack tb)
      \<and> 9 \<le> maxlen (stack tb))"

section \<open>Basic facts\<close>

lemma get_1_0_end_1c_document: "get_1_0_end_1c tb = document tb"
  by (simp add: get_1_0_end_1c_def get_1_0_end_def)

lemma stackify_stackcursor:
  "stackcursor (stackify tb) = (if stackcursor tb < 9 then stackcursor tb + 1 else stackcursor tb)"
  by (simp add: stackify_def Let_def)

lemma stackify_items:
  "items (stack (stackify tb)) =
     (if maxlen (stack tb) < Suc (length (items (stack tb)))
      then tl (items (stack tb) @ [document tb]) else items (stack tb) @ [document tb])"
  by (simp add: stackify_def Let_def deque_append_def get_1_0_end_1c_document)

lemma stackify_maxlen: "maxlen (stack (stackify tb)) = maxlen (stack tb)"
  by (simp add: stackify_def Let_def deque_append_def)

lemma stackify_other:
  "document (stackify tb) = document tb"
  "changed_since_saved (stackify tb) = changed_since_saved tb"
  "tab_calls (stackify tb) = tab_calls tb"
  "file_name (stackify tb) = file_name tb"
  "tk_name (stackify tb) = tk_name tb"
  by (simp_all add: stackify_def Let_def)

text \<open>
  With \<^verbatim>\<open>self.clear\<close> unresolved, both methods come down to their guard: they return at
  once or raise, and leave the object as it is.
\<close>

lemma undo_eq:
  "undo tb = (if stackcursor tb \<noteq> 0 then (Some (AttributeError ''clear''), tb) else (None, tb))"
  by (simp add: undo_def undo_with_def clear_def and_then_def)

lemma redo_eq:
  "redo tb =
     (if deque_len (stack tb) > stackcursor tb + 1 then (Some (AttributeError ''clear''), tb)
      else (None, tb))"
  by (simp add: redo_def redo_with_def clear_def and_then_def)

lemma undo_at_zero: "stackcursor tb = 0 \<Longrightarrow> undo tb = (None, tb)"
  by (simp add: undo_eq)

lemma redo_at_last: "deque_len (stack tb) \<le> stackcursor tb + 1 \<Longrightarrow> redo tb = (None, tb)"
  by (simp add: redo_eq)

subsection \<open>Sequences\<close>

lemma final_Nil: "final [] tb = tb"
  by (simp add: final_def)

lemma final_Cons: "final (c # cs) tb = final cs (snd (perform c tb))"
  by (simp add: final_def split: prod.splits)

lemma final_append: "final (cs @ ds) tb = final ds (final cs tb)"
  by (induction cs arbitrary: tb) (simp_all add: final_Nil final_Cons)

lemma final_snoc_Stackify: "final (cs @ [Stackify]) tb = stackify (final cs tb)"
  by (simp add: final_append final_Cons final_Nil)

lemma raised_two:
  "raised [c, d] tb = [fst (perform c tb), fst (perform d (snd (perform c tb)))]"
  by (simp add: raised_def split: prod.splits)

lemma replicate_Suc_snoc: "replicate (Suc n) x = replicate n x @ [x]"
  by (simp add: replicate_append_same)

lemma stackcursor_after_stackifies:
  "stackcursor (final (replicate n Stackify) (Textbox_init max_undo nf)) = min (int n) 9"
proof (induction n)
  case 0
  show ?case by (simp add: final_Nil Textbox_init_def)
next
  case (Suc n)
  show ?case
    unfolding replicate_Suc_snoc final_snoc_Stackify stackify_stackcursor Suc.IH
    by simp
qed

lemma length_after_stackifies:
  "length (items (stack (final (replicate n Stackify) (Textbox_init max_undo nf)))) = min n max_undo
   \<and> maxlen (stack (final (replicate n Stackify) (Textbox_init max_undo nf))) = max_undo"
proof (induction n)
  case 0
  show ?case by (simp add: final_Nil Textbox_init_def deque_new_def)
next
  case (Suc n)
  then show ?case
    unfolding replicate_Suc_snoc final_snoc_Stackify stackify_items stackify_maxlen
    by auto
qed

subsection \<open>The snapshots a run of edits leaves\<close>

lemma final_snapshots_Cons:
  "final (snapshots_of (t # ts)) tb = final (snapshots_of ts) (stackify (tb\<lparr>document := t\<rparr>))"
  by (simp add: snapshots_of_def final_Cons)

lemma drop_Suc_snoc:
  "drop (Suc n) (xs @ t # ts) = drop n (tl (xs @ [t]) @ ts)"
  by (cases xs) simp_all

lemma items_after_snapshots:
  "length (items (stack tb)) \<le> maxlen (stack tb) \<Longrightarrow>
   items (stack (final (snapshots_of ts) tb)) =
     drop (length (items (stack tb)) + length ts - maxlen (stack tb)) (items (stack tb) @ ts)"
proof (induction ts arbitrary: tb)
  case Nil
  then show ?case by (simp add: snapshots_of_def final_Nil)
next
  case (Cons t ts)
  let ?tb1 = "stackify (tb\<lparr>document := t\<rparr>)"
  let ?xs = "items (stack tb)"
  let ?m = "maxlen (stack tb)"
  have m1: "maxlen (stack ?tb1) = ?m" by (simp add: stackify_maxlen)
  show ?case
  proof (cases "length ?xs < ?m")
    case True
    then have it: "items (stack ?tb1) = ?xs @ [t]" by (simp add: stackify_items)
    with True have "length (items (stack ?tb1)) \<le> maxlen (stack ?tb1)" by (simp add: m1)
    from Cons.IH [OF this] show ?thesis
      by (simp add: final_snapshots_Cons it m1)
  next
    case False
    with Cons.prems have eq: "length ?xs = ?m" by simp
    then have it: "items (stack ?tb1) = tl (?xs @ [t])" by (simp add: stackify_items)
    then have len: "length (items (stack ?tb1)) = ?m" using eq by simp
    then have "length (items (stack ?tb1)) \<le> maxlen (stack ?tb1)" by (simp add: m1)
    from Cons.IH [OF this] have
      "items (stack (final (snapshots_of (t # ts)) tb)) = drop (length ts) (tl (?xs @ [t]) @ ts)"
      using len by (simp add: final_snapshots_Cons m1 it)
    also have "\<dots> = drop (Suc (length ts)) (?xs @ t # ts)"
      by (simp only: drop_Suc_snoc)
    finally show ?thesis using eq by simp
  qed
qed

lemma items_after_snapshots_init:
  "items (stack (final (snapshots_of ts) (Textbox_init max_undo nf))) = drop (length ts - max_undo) ts"
  using items_after_snapshots [of "Textbox_init max_undo nf" ts]
  by (simp add: Textbox_init_def deque_new_def)

subsection \<open>The cursor within the stack, for a deque of nine or more\<close>

lemma cursor_in_stack_init: "9 \<le> max_undo \<Longrightarrow> cursor_in_stack (Textbox_init max_undo nf)"
  by (simp add: cursor_in_stack_def Textbox_init_def deque_new_def deque_len_def)

lemma cursor_in_stack_stackify: "cursor_in_stack tb \<Longrightarrow> cursor_in_stack (stackify tb)"
  by (auto simp add: cursor_in_stack_def stackify_stackcursor stackify_items stackify_maxlen
      deque_len_def)

lemma cursor_in_stack_perform: "cursor_in_stack tb \<Longrightarrow> cursor_in_stack (snd (perform c tb))"
proof (cases c)
  case Stackify
  assume "cursor_in_stack tb"
  with Stackify show ?thesis by (simp add: cursor_in_stack_stackify)
next
  case Undo
  assume "cursor_in_stack tb"
  with Undo show ?thesis by (simp add: undo_eq)
next
  case Redo
  assume "cursor_in_stack tb"
  with Redo show ?thesis by (simp add: redo_eq)
next
  case (Edit s)
  assume "cursor_in_stack tb"
  with Edit show ?thesis by (simp add: cursor_in_stack_def)
qed

lemma cursor_in_stack_final: "cursor_in_stack tb \<Longrightarrow> cursor_in_stack (final cs tb)"
  by (induction cs arbitrary: tb) (simp_all add: final_Nil final_Cons cursor_in_stack_perform)

text \<open>
  When \<^verbatim>\<open>cf.max_undo\<close> is 9 or more, the literal 9 in \<^verbatim>\<open>stackify\<close> keeps the cursor
  within the stored snapshots in every state a session reaches.
\<close>

lemma cursor_bounds_large_capacity:
  "9 \<le> max_undo \<Longrightarrow>
   0 \<le> stackcursor (final cs (Textbox_init max_undo nf))
   \<and> stackcursor (final cs (Textbox_init max_undo nf))
       \<le> deque_len (stack (final cs (Textbox_init max_undo nf)))"
  using cursor_in_stack_final [OF cursor_in_stack_init, of max_undo cs nf]
  by (simp add: cursor_in_stack_def)

subsection \<open>The bodies of undo and redo with \<^verbatim>\<open>clear_all\<close>\<close>

text \<open>
  Read with the method the class does define, \<^verbatim>\<open>undo\<close> steps the cursor back and puts
  the snapshot there into the emptied document, and \<^verbatim>\<open>redo\<close> steps forward, except at
  cursor 9, where it stays. An undo followed by a redo then leaves the snapshot at the
  cursor in the document, whatever the document held before.
\<close>

lemma undo_with_clear_all:
  "0 < stackcursor tb \<Longrightarrow> stackcursor tb \<le> deque_len (stack tb) \<Longrightarrow>
   undo_with clear_all tb =
     (None, tb\<lparr>document := items (stack tb) ! nat (stackcursor tb - 1),
               stackcursor := stackcursor tb - 1\<rparr>)"
  by (simp add: undo_with_def clear_all_def and_then_def deque_getitem_def deque_len_def
      insert_0_0_def Let_def)

lemma redo_with_clear_all:
  "0 \<le> stackcursor tb \<Longrightarrow> stackcursor tb + 1 < deque_len (stack tb) \<Longrightarrow>
   redo_with clear_all tb =
     (let c = (if stackcursor tb < 9 then stackcursor tb + 1 else stackcursor tb)
      in (None, tb\<lparr>document := items (stack tb) ! nat c, stackcursor := c\<rparr>))"
  by (simp add: redo_with_def clear_all_def and_then_def deque_getitem_def deque_len_def
      insert_0_0_def Let_def)

lemma undo_redo_with_clear_all:
  "0 < stackcursor tb \<Longrightarrow> stackcursor tb < deque_len (stack tb) \<Longrightarrow> stackcursor tb \<le> 9 \<Longrightarrow>
   and_then (undo_with clear_all tb) (redo_with clear_all) =
     (None, tb\<lparr>document := items (stack tb) ! nat (stackcursor tb)\<rparr>)"
  by (simp add: undo_with_clear_all redo_with_clear_all and_then_def Let_def)

text \<open>
  With a deque shorter than the literal 9 allows for, the cursor runs past the stored
  snapshots and the read in \<^verbatim>\<open>undo\<close> is out of range even then.
\<close>

lemma undo_with_clear_all_out_of_range:
  "undo_with clear_all (final (replicate 4 Stackify) (Textbox_init 3 ''untitled'')) =
     (Some IndexError,
      (final (replicate 4 Stackify) (Textbox_init 3 ''untitled''))\<lparr>document := [], stackcursor := 3\<rparr>)"
  by (simp add: undo_with_def clear_all_def and_then_def deque_getitem_def deque_len_def
      Let_def stackcursor_after_stackifies length_after_stackifies)

subsection \<open>The key handler\<close>

lemma check_on_key_flag:
  "changed_since_saved (check_on_key e tb) = (changed_since_saved tb \<or> state e = 16)"
  by (auto simp add: check_on_key_def Let_def stackify_other)

lemma check_on_key_tab_calls:
  "tab_calls (check_on_key e tb) =
     tab_calls tb @ (if \<not> changed_since_saved tb \<and> state e = 16
                     then [(tk_name tb, file_name tb @ '' *'')] else [])"
  by (simp add: check_on_key_def Let_def stackify_other)

lemma check_on_key_names:
  "file_name (check_on_key e tb) = file_name tb" "tk_name (check_on_key e tb) = tk_name tb"
  by (simp_all add: check_on_key_def Let_def stackify_other)

lemma press_keys_flag:
  "changed_since_saved (press_keys evs tb) =
     (changed_since_saved tb \<or> list_ex (\<lambda>e. state e = 16) evs)"
  by (induction evs arbitrary: tb) (auto simp add: check_on_key_flag)

lemma press_keys_tab_calls:
  "tab_calls (press_keys evs tb) =
     tab_calls tb @ (if \<not> changed_since_saved tb \<and> list_ex (\<lambda>e. state e = 16) evs
                     then [(tk_name tb, file_name tb @ '' *'')] else [])"
  by (induction evs arbitrary: tb)
     (auto simp add: check_on_key_flag check_on_key_tab_calls check_on_key_names)

subsection \<open>The proxy\<close>

lemma change_condition_classify:
  "change_condition (raw_op # rest) = Inr (classify raw_op rest \<noteq> None)"
  by (cases rest; cases "tl rest") (auto simp add: change_condition_def classify_def)

lemma proxy_fault_propagates:
  "tk_call (orig # args) = Inl e \<Longrightarrow>
   proxy_for_line_numbers False orig tk_call args =
     \<lparr>printed_lines = [], generated = [], returned = Inl e\<rparr>"
  by (simp add: proxy_for_line_numbers_def Let_def)

lemma proxy_fault_in_dev_mode:
  "tk_call (orig # raw_op # rest) = Inl e \<Longrightarrow>
   proxy_for_line_numbers True orig tk_call (raw_op # rest) =
     \<lparr>printed_lines = [Printed_error e, Printed_cmd (orig # raw_op # rest)],
      generated = (if classify raw_op rest \<noteq> None then [''<<Change>>''] else []),
      returned = Inl (UnboundLocalError ''result'')\<rparr>"
  by (simp add: proxy_for_line_numbers_def notify_and_return_def change_condition_classify Let_def)

section \<open>The claims\<close>

subsection \<open>Undo and redo\<close>

text \<open>
  Claim C1: \<^verbatim>\<open>undo()\<close> at cursor 0 leaves document and cursor unchanged; at a nonzero
  cursor it decrements the cursor by one, clears the document and inserts the snapshot
  at the new cursor.

  The first half is \<open>undo_at_zero\<close>. The second half fails on the first step of the
  body: after one snapshot the cursor is 1, and \<^verbatim>\<open>undo()\<close> raises
  \<^verbatim>\<open>AttributeError\<close> on \<^verbatim>\<open>self.clear\<close> with cursor and document as they were.
\<close>

theorem undo_after_one_snapshot_raises:
  "final [Edit ''a'', Stackify] (Textbox_init 10 ''untitled'') =
     \<lparr>document = ''a'', file_name = ''untitled'', tk_name = [], changed_since_saved = False,
      stack = \<lparr>maxlen = 10, items = [''a'']\<rparr>, stackcursor = 1, tab_calls = []\<rparr>
   \<and> undo \<lparr>document = ''a'', file_name = ''untitled'', tk_name = [], changed_since_saved = False,
      stack = \<lparr>maxlen = 10, items = [''a'']\<rparr>, stackcursor = 1, tab_calls = []\<rparr> =
     (Some (AttributeError ''clear''),
      \<lparr>document = ''a'', file_name = ''untitled'', tk_name = [], changed_since_saved = False,
       stack = \<lparr>maxlen = 10, items = [''a'']\<rparr>, stackcursor = 1, tab_calls = []\<rparr>)"
  by (simp add: final_def Textbox_init_def deque_new_def stackify_def deque_append_def
      get_1_0_end_1c_def get_1_0_end_def undo_eq)

text \<open>
  Claim C2: \<^verbatim>\<open>redo()\<close> with cursor + 1 inside the stored snapshots increments the
  cursor and replaces the document by the snapshot there; at the last snapshot it
  changes nothing.

  The second half is \<open>redo_at_last\<close>. For the first: eleven snapshots in a deque of
  twelve leave the cursor at 9 with eleven snapshots stored, so the guard of
  \<^verbatim>\<open>redo()\<close> holds, and the call raises \<^verbatim>\<open>AttributeError\<close> on \<^verbatim>\<open>self.clear\<close> and
  changes nothing.
\<close>

theorem redo_below_last_snapshot_raises:
  "stackcursor (final (replicate 11 Stackify) (Textbox_init 12 ''untitled'')) = 9
   \<and> deque_len (stack (final (replicate 11 Stackify) (Textbox_init 12 ''untitled''))) = 11
   \<and> redo (final (replicate 11 Stackify) (Textbox_init 12 ''untitled'')) =
       (Some (AttributeError ''clear''), final (replicate 11 Stackify) (Textbox_init 12 ''untitled''))"
  by (simp add: redo_eq deque_len_def stackcursor_after_stackifies length_after_stackifies)

text \<open>
  Claim C3: with the cursor strictly between 0 and the number of stored snapshots,
  \<^verbatim>\<open>undo()\<close> followed by \<^verbatim>\<open>redo()\<close> restores the text the document held before the
  undo.

  In the same state as above the cursor is strictly inside, and neither call does
  anything: both raise \<^verbatim>\<open>AttributeError\<close>.
\<close>

theorem undo_then_redo_raises:
  "0 < stackcursor (final (replicate 11 Stackify) (Textbox_init 12 ''untitled''))
   \<and> stackcursor (final (replicate 11 Stackify) (Textbox_init 12 ''untitled''))
       < deque_len (stack (final (replicate 11 Stackify) (Textbox_init 12 ''untitled'')))
   \<and> raised [Undo, Redo] (final (replicate 11 Stackify) (Textbox_init 12 ''untitled'')) =
       [Some (AttributeError ''clear''), Some (AttributeError ''clear'')]"
  by (simp add: raised_two undo_eq redo_eq deque_len_def stackcursor_after_stackifies
      length_after_stackifies)

subsection \<open>Snapshots\<close>

text \<open>
  Claim C4: every \<^verbatim>\<open>stackify\<close> advances the cursor by one, capped at capacity - 1; with
  capacity 3, four calls take the cursor through 0, 1, 2, 2.

  The cap in the code is the literal 9 (\<open>stackify_stackcursor\<close>), whatever
  \<^verbatim>\<open>cf.max_undo\<close> is: with a deque of three the cursor goes from 0 to 1, 2, 3 and 4.
\<close>

theorem cursor_passes_capacity_three:
  "map (\<lambda>n. stackcursor (final (replicate n Stackify) (Textbox_init 3 ''untitled'')))
     [0, 1, 2, 3, 4] = [0, 1, 2, 3, 4]"
  by (simp add: stackcursor_after_stackifies)

text \<open>
  Claim C5: each \<^verbatim>\<open>stackify\<close> appends the document's text without the implicit final
  newline to the snapshots; at capacity the oldest snapshot is dropped; so after more
  calls than the capacity, the snapshots stored are the most recent ones, as many as
  the capacity.

  Below, \<open>butlast (get_1_0_end tb)\<close> is the widget's text from \<^verbatim>\<open>1.0\<close> to \<^verbatim>\<open>end\<close>
  without its last character, and \<open>snapshots_of ts\<close> sets the document to each text of
  \<open>ts\<close> in turn and calls \<^verbatim>\<open>stackify\<close> after each.
\<close>

theorem stackify_keeps_most_recent:
  "(length (items (stack tb)) < maxlen (stack tb) \<longrightarrow>
      items (stack (stackify tb)) = items (stack tb) @ [butlast (get_1_0_end tb)])
   \<and> (items (stack tb) = oldest # newer \<and> length (items (stack tb)) = maxlen (stack tb) \<longrightarrow>
      items (stack (stackify tb)) = newer @ [butlast (get_1_0_end tb)])
   \<and> (max_undo < length ts \<longrightarrow>
      items (stack (final (snapshots_of ts) (Textbox_init max_undo nf)))
        = drop (length ts - max_undo) ts
      \<and> length (items (stack (final (snapshots_of ts) (Textbox_init max_undo nf)))) = max_undo)"
proof (intro conjI impI)
  assume "length (items (stack tb)) < maxlen (stack tb)"
  then show "items (stack (stackify tb)) = items (stack tb) @ [butlast (get_1_0_end tb)]"
    by (simp add: stackify_items get_1_0_end_def)
next
  assume "items (stack tb) = oldest # newer \<and> length (items (stack tb)) = maxlen (stack tb)"
  then have "items (stack tb) = oldest # newer" and "maxlen (stack tb) = Suc (length newer)"
    by auto
  then show "items (stack (stackify tb)) = newer @ [butlast (get_1_0_end tb)]"
    by (simp add: stackify_items get_1_0_end_def)
next
  assume "max_undo < length ts"
  show "items (stack (final (snapshots_of ts) (Textbox_init max_undo nf)))
        = drop (length ts - max_undo) ts"
    by (rule items_after_snapshots_init)
next
  assume "max_undo < length ts"
  then show "length (items (stack (final (snapshots_of ts) (Textbox_init max_undo nf)))) = max_undo"
    by (simp add: items_after_snapshots_init)
qed

theorem stackify_keeps_most_recent_witness:
  "length (items (stack (Textbox_init 3 ''untitled''\<lparr>document := ''a''\<rparr>)))
     < maxlen (stack (Textbox_init 3 ''untitled''\<lparr>document := ''a''\<rparr>))
   \<and> items (stack (stackify (Textbox_init 3 ''untitled''\<lparr>document := ''a''\<rparr>))) = [''a'']
   \<and> items (stack \<lparr>document = ''abcd'', file_name = ''untitled'', tk_name = [],
        changed_since_saved = False, stack = \<lparr>maxlen = 3, items = [''a'', ''ab'', ''abc'']\<rparr>,
        stackcursor = 3, tab_calls = []\<rparr>) = ''a'' # [''ab'', ''abc'']
   \<and> items (stack (stackify \<lparr>document = ''abcd'', file_name = ''untitled'', tk_name = [],
        changed_since_saved = False, stack = \<lparr>maxlen = 3, items = [''a'', ''ab'', ''abc'']\<rparr>,
        stackcursor = 3, tab_calls = []\<rparr>)) = [''ab'', ''abc'', ''abcd'']
   \<and> (3::nat) < length [''a'', ''ab'', ''abc'', ''abcd'']
   \<and> items (stack (final (snapshots_of [''a'', ''ab'', ''abc'', ''abcd''])
        (Textbox_init 3 ''untitled''))) = [''ab'', ''abc'', ''abcd'']"
  using stackify_keeps_most_recent
          [of "Textbox_init 3 ''untitled''\<lparr>document := ''a''\<rparr>" "''a''" "[]" 3
              "[''a'', ''ab'', ''abc'', ''abcd'']" "''untitled''"]
        stackify_keeps_most_recent
          [of "\<lparr>document = ''abcd'', file_name = ''untitled'', tk_name = [],
                changed_since_saved = False,
                stack = \<lparr>maxlen = 3, items = [''a'', ''ab'', ''abc'']\<rparr>,
                stackcursor = 3, tab_calls = []\<rparr>" "''a''" "[''ab'', ''abc'']" 3
              "[''a'', ''ab'', ''abc'', ''abcd'']" "''untitled''"]
  by (simp add: Textbox_init_def deque_new_def get_1_0_end_def)

text \<open>
  Claim C6: in every state reached from the initial one by \<^verbatim>\<open>stackify\<close>, \<^verbatim>\<open>undo\<close> and
  \<^verbatim>\<open>redo\<close>, the cursor is at least 0 and at most the number of stored snapshots.

  For \<^verbatim>\<open>cf.max_undo\<close> of 9 or more this is \<open>cursor_bounds_large_capacity\<close>. With a
  deque of three, four snapshots leave the cursor at 4 and three snapshots stored.
\<close>

theorem cursor_exceeds_snapshot_count:
  "stackcursor (final (replicate 4 Stackify) (Textbox_init 3 ''untitled'')) = 4
   \<and> deque_len (stack (final (replicate 4 Stackify) (Textbox_init 3 ''untitled''))) = 3"
  by (simp add: deque_len_def stackcursor_after_stackifies length_after_stackifies)

subsection \<open>The flag for unsaved changes\<close>

text \<open>
  Claim C7: \<^verbatim>\<open>changed_since_saved\<close> starts false; the first character-producing edit
  (modifier state 16) sets it, and on that transition alone the tab's title is set to
  the file name followed by \<^verbatim>\<open>" *"\<close>; later edits neither set it nor touch the title
  again until the flag is cleared from outside; navigation-only events never set it.

  As stated the claim fails: the handler looks at the modifier state and not at the
  key. Pressing the left arrow with no modifier is a pure cursor move, has state 16,
  and sets the flag and the title on a clean widget.
\<close>

theorem navigation_key_sets_dirty_flag:
  "navigation_only \<lparr>state = 16, keysym = ''Left'', char = []\<rparr>
   \<and> \<not> changed_since_saved (Textbox_init 10 ''untitled'')
   \<and> changed_since_saved
        (check_on_key \<lparr>state = 16, keysym = ''Left'', char = []\<rparr> (Textbox_init 10 ''untitled''))
   \<and> tab_calls
        (check_on_key \<lparr>state = 16, keysym = ''Left'', char = []\<rparr> (Textbox_init 10 ''untitled''))
       = [([], ''untitled *'')]"
  by (simp add: navigation_only_def check_on_key_flag check_on_key_tab_calls Textbox_init_def)

text \<open>
  Claim C7, amended: \<^verbatim>\<open>changed_since_saved\<close> starts false. In a sequence of key events
  on a clean widget, the first event whose modifier state is 16 sets the flag, whatever
  key it is, and on that transition alone the tab's title is set to the file name
  followed by \<^verbatim>\<open>" *"\<close>. The events before it, whose modifier state is not 16, leave
  flag and title alone even when they produce a character, and no event after it sets
  the flag or touches the title again while the flag stays set.

  \<open>before\<close> are the events ahead of the first one with state 16, \<open>later\<close> those after
  it; neither \<open>keysym\<close> nor \<open>char\<close> of any event is constrained.
\<close>

theorem dirty_flag_follows_modifier_state:
  assumes "\<not> changed_since_saved tb"
    and "\<forall>e\<in>set before. state e \<noteq> 16"
    and "state first = 16"
  shows "\<not> changed_since_saved (Textbox_init max_undo nf)
    \<and> \<not> changed_since_saved (press_keys before tb)
    \<and> tab_calls (press_keys before tb) = tab_calls tb
    \<and> changed_since_saved (press_keys (before @ [first]) tb)
    \<and> tab_calls (press_keys (before @ [first]) tb)
        = tab_calls tb @ [(tk_name tb, file_name tb @ '' *'')]
    \<and> changed_since_saved (press_keys (before @ first # later) tb)
    \<and> tab_calls (press_keys (before @ first # later) tb)
        = tab_calls tb @ [(tk_name tb, file_name tb @ '' *'')]"
proof -
  from assms(2) have none: "\<not> list_ex (\<lambda>e. state e = 16) before"
    by (simp add: list_ex_iff)
  have some: "list_ex (\<lambda>e. state e = 16) (before @ [first])"
       "list_ex (\<lambda>e. state e = 16) (before @ first # later)"
    using assms(3) by (simp_all add: list_ex_iff)
  show ?thesis
    using assms(1) none some
    by (simp only: press_keys_flag press_keys_tab_calls) (simp add: Textbox_init_def)
qed

text \<open>
  An instance: Shift and \<open>a\<close> (state 17, producing \<open>A\<close>) leaves the widget clean, the
  left arrow after it marks it changed, and the letter \<open>a\<close> and a further arrow with
  another state add nothing.
\<close>

theorem dirty_flag_follows_modifier_state_witness:
  "\<not> changed_since_saved (Textbox_init 10 ''untitled'')
   \<and> character_producing \<lparr>state = 17, keysym = ''A'', char = ''A''\<rparr>
   \<and> state \<lparr>state = 17, keysym = ''A'', char = ''A''\<rparr> \<noteq> 16
   \<and> state \<lparr>state = 16, keysym = ''Left'', char = []\<rparr> = 16
   \<and> \<not> changed_since_saved
        (press_keys [\<lparr>state = 17, keysym = ''A'', char = ''A''\<rparr>] (Textbox_init 10 ''untitled''))
   \<and> tab_calls
        (press_keys [\<lparr>state = 17, keysym = ''A'', char = ''A''\<rparr>] (Textbox_init 10 ''untitled''))
       = []
   \<and> changed_since_saved
        (press_keys [\<lparr>state = 17, keysym = ''A'', char = ''A''\<rparr>,
                     \<lparr>state = 16, keysym = ''Left'', char = []\<rparr>] (Textbox_init 10 ''untitled''))
   \<and> tab_calls
        (press_keys [\<lparr>state = 17, keysym = ''A'', char = ''A''\<rparr>,
                     \<lparr>state = 16, keysym = ''Left'', char = []\<rparr>] (Textbox_init 10 ''untitled''))
       = [([], ''untitled *'')]
   \<and> tab_calls
        (press_keys [\<lparr>state = 17, keysym = ''A'', char = ''A''\<rparr>,
                     \<lparr>state = 16, keysym = ''Left'', char = []\<rparr>,
                     \<lparr>state = 16, keysym = ''a'', char = ''a''\<rparr>,
                     \<lparr>state = 20, keysym = ''Right'', char = []\<rparr>] (Textbox_init 10 ''untitled''))
       = [([], ''untitled *'')]"
proof -
  have clean: "\<not> changed_since_saved (Textbox_init 10 ''untitled'')"
    by (simp add: Textbox_init_def)
  have others: "\<forall>e\<in>set [\<lparr>state = 17, keysym = ''A'', char = ''A''\<rparr>]. state e \<noteq> 16"
    by simp
  have sixteen: "state \<lparr>state = 16, keysym = ''Left'', char = []\<rparr> = 16"
    by simp
  show ?thesis
    using dirty_flag_follows_modifier_state
            [OF clean others sixteen, of 10 "''untitled''"
               "[\<lparr>state = 16, keysym = ''a'', char = ''a''\<rparr>,
                 \<lparr>state = 20, keysym = ''Right'', char = []\<rparr>]"]
    by (simp add: Textbox_init_def character_producing_def)
qed

subsection \<open>The proxy\<close>

text \<open>
  Claim C8: the change signal is fired exactly when the intercepted operation is
  insert, replace or delete, or the arguments start with \<^verbatim>\<open>mark set insert\<close>,
  \<^verbatim>\<open>xview moveto\<close>, \<^verbatim>\<open>xview scroll\<close>, \<^verbatim>\<open>yview moveto\<close> or \<^verbatim>\<open>yview scroll\<close>; for
  every other operation none is generated.

  The condition of the source agrees with the classifier of the specification on
  every operation, and when the widget's own command returns, the proxy generates
  \<^verbatim>\<open><<Change>>\<close> once if the classifier gives an event and not at all otherwise, in
  either mode.
\<close>

theorem change_signal_classifier:
  "change_condition (raw_op # rest) = Inr (classify raw_op rest \<noteq> None)
   \<and> (tk_call (orig # raw_op # rest) = Inr r \<longrightarrow>
        generated (proxy_for_line_numbers dev_mode orig tk_call (raw_op # rest))
          = (if classify raw_op rest \<noteq> None then [''<<Change>>''] else [])
        \<and> returned (proxy_for_line_numbers dev_mode orig tk_call (raw_op # rest)) = Inr r)"
proof (intro conjI impI)
  show "change_condition (raw_op # rest) = Inr (classify raw_op rest \<noteq> None)"
    by (rule change_condition_classify)
next
  assume "tk_call (orig # raw_op # rest) = Inr r"
  then show "generated (proxy_for_line_numbers dev_mode orig tk_call (raw_op # rest))
          = (if classify raw_op rest \<noteq> None then [''<<Change>>''] else [])"
    by (simp add: proxy_for_line_numbers_def notify_and_return_def change_condition_classify
        Let_def)
next
  assume "tk_call (orig # raw_op # rest) = Inr r"
  then show "returned (proxy_for_line_numbers dev_mode orig tk_call (raw_op # rest)) = Inr r"
    by (simp add: proxy_for_line_numbers_def notify_and_return_def change_condition_classify
        Let_def)
qed

theorem change_signal_classifier_witness:
  "(\<lambda>cmd. Inr []) [''.textbox_orig'', ''mark'', ''set'', ''insert'', ''1.0'']
     = (Inr [] :: error + string)
   \<and> change_condition [''mark'', ''set'', ''insert'', ''1.0''] = Inr True
   \<and> generated (proxy_for_line_numbers False ''.textbox_orig'' (\<lambda>cmd. Inr [])
        [''mark'', ''set'', ''insert'', ''1.0'']) = [''<<Change>>'']
   \<and> change_condition [''tag'', ''add'', ''sel'', ''1.0'', ''end''] = Inr False
   \<and> generated (proxy_for_line_numbers False ''.textbox_orig'' (\<lambda>cmd. Inr [])
        [''tag'', ''add'', ''sel'', ''1.0'', ''end'']) = []"
  using change_signal_classifier
          [of "''mark''" "[''set'', ''insert'', ''1.0'']" "\<lambda>cmd. Inr []" "''.textbox_orig''"
              "[]" False]
        change_signal_classifier
          [of "''tag''" "[''add'', ''sel'', ''1.0'', ''end'']" "\<lambda>cmd. Inr []" "''.textbox_orig''"
              "[]" False]
  by (simp add: classify_def)

text \<open>
  Claim C9: a failure of the widget's own command inside the proxy is governed by a
  configuration switch: in one mode it is caught and logged without crashing, in the
  other it propagates.

  The switch is \<^verbatim>\<open>cf.dev_mode\<close>. When it is off the exception propagates
  (\<open>proxy_fault_propagates\<close>). When it is on the exception is caught and printed with the
  command, the change event is generated, and then \<^verbatim>\<open>return result\<close> reads a variable
  that was never assigned: the proxy raises \<^verbatim>\<open>UnboundLocalError\<close>.
\<close>

theorem caught_fault_raises_unbound_local:
  "proxy_for_line_numbers True ''.textbox_orig'' (\<lambda>cmd. Inl (TclError ''bad text index''))
     [''insert'', ''9.9x'', ''a''] =
   \<lparr>printed_lines =
      [Printed_error (TclError ''bad text index''),
       Printed_cmd [''.textbox_orig'', ''insert'', ''9.9x'', ''a'']],
    generated = [''<<Change>>''],
    returned = Inl (UnboundLocalError ''result'')\<rparr>"
  by (simp add: proxy_for_line_numbers_def notify_and_return_def change_condition_def)

subsection \<open>Exceptions on the undo path\<close>

text \<open>
  Claim C10: from the initial empty history no sequence of \<^verbatim>\<open>stackify\<close>, \<^verbatim>\<open>undo\<close> and
  \<^verbatim>\<open>redo\<close> calls raises: every index read is in range and every method called on the
  widget is defined.

  The shortest sequence that reaches the body of \<^verbatim>\<open>undo\<close> raises: one snapshot, then
  \<^verbatim>\<open>undo()\<close>, which calls the undefined \<^verbatim>\<open>self.clear\<close>.
\<close>

theorem undo_raises_attribute_error:
  "raised [Stackify, Undo] (Textbox_init 10 ''untitled'') = [None, Some (AttributeError ''clear'')]"
  by (simp add: raised_two undo_eq stackify_stackcursor Textbox_init_def)

end
